theory Spec2Isabelle
  imports Main "HOL-Library.Word" "HOL-Library.AList"
begin

unbundle bit_operations_syntax

section \<open>Python values and exceptions\<close>

text \<open>
  The values that flow through \<open>main.py\<close> are the ones \<open>json.load\<close> and Flask's
  \<open>request.json\<close> produce: \<open>None\<close>, booleans, integers, floats, strings, lists and
  dictionaries with string keys. A float is kept as its IEEE-754 binary64 bit pattern; a
  dictionary as an association list in insertion order.
\<close>

datatype json =
    JNull
  | JBool bool
  | JInt int
  | JFloat "64 word"
  | JStr string
  | JArr "json list"
  | JObj "(string \<times> json) list"

text \<open>
  The exception classes that the code names or that its operations raise.
  \<open>IOError\<close> is Python 3's alias of \<open>OSError\<close>. \<open>UnicodeDecodeError\<close> and
  \<open>JSONDecodeError\<close> are both subclasses of \<open>ValueError\<close>, neither of the other.
  \<open>RecursionError\<close> is not a \<open>ValueError\<close>; \<open>ValueError\<close> stands for a plain
  \<open>ValueError\<close> that is not a \<open>JSONDecodeError\<close>.
  \<open>HTTPException c\<close> is Flask aborting the request with status \<open>c\<close>.
\<close>

datatype exn =
    OSError
  | JSONDecodeError
  | UnicodeDecodeError
  | TypeError
  | AttributeError
  | KeyError
  | RecursionError
  | ValueError
  | HTTPException nat

text \<open>Truth value testing, as \<open>if entry:\<close> and \<open>not data\<close> perform it.\<close>

fun truthy :: "json \<Rightarrow> bool" where
  "truthy JNull = False"
| "truthy (JBool b) = b"
| "truthy (JInt n) = (n \<noteq> 0)"
| "truthy (JFloat w) = (push_bit 1 w \<noteq> 0)"
| "truthy (JStr s) = (s \<noteq> [])"
| "truthy (JArr xs) = (xs \<noteq> [])"
| "truthy (JObj kvs) = (kvs \<noteq> [])"

text \<open>\<open>k in s\<close> on two strings: \<open>k\<close> occurs in \<open>s\<close> as a contiguous run.\<close>

fun substring :: "string \<Rightarrow> string \<Rightarrow> bool" where
  "substring k [] = (k = [])"
| "substring k (c # cs) = (take (length k) (c # cs) = k \<or> substring k cs)"

text \<open>\<open>k in d\<close> for a string \<open>k\<close>: key membership on a dictionary, element membership on
  a list, substring test on a string, \<open>TypeError\<close> on everything else.\<close>

fun py_contains :: "string \<Rightarrow> json \<Rightarrow> exn + bool" where
  "py_contains k (JObj kvs) = Inr (map_of kvs k \<noteq> None)"
| "py_contains k (JArr xs) = Inr (JStr k \<in> set xs)"
| "py_contains k (JStr s) = Inr (substring k s)"
| "py_contains k _ = Inl TypeError"

text \<open>\<open>d[k]\<close> for a string \<open>k\<close>.\<close>

fun py_getitem :: "json \<Rightarrow> string \<Rightarrow> exn + json" where
  "py_getitem (JObj kvs) k = (case map_of kvs k of None \<Rightarrow> Inl KeyError | Some v \<Rightarrow> Inr v)"
| "py_getitem _ k = Inl TypeError"

text \<open>\<open>d[k] = v\<close> for a string \<open>k\<close>: an existing key keeps its place, a new one goes
  last; anything but a dictionary raises \<open>TypeError\<close>.\<close>

fun py_setitem :: "json \<Rightarrow> string \<Rightarrow> json \<Rightarrow> exn + json" where
  "py_setitem (JObj kvs) k v = Inr (JObj (AList.update k v kvs))"
| "py_setitem _ k v = Inl TypeError"

text \<open>\<open>d.get(k)\<close>: \<open>None\<close> for a missing key; only a dictionary has the method.\<close>

fun py_get :: "json \<Rightarrow> string \<Rightarrow> exn + json" where
  "py_get (JObj kvs) k = Inr (case map_of kvs k of None \<Rightarrow> JNull | Some v \<Rightarrow> v)"
| "py_get _ k = Inl AttributeError"

section \<open>UUIDs\<close>

text \<open>
  A \<open>uuid.UUID\<close> is its 128-bit integer. \<open>str\<close> of it is \<open>'%032x' % self.int\<close> cut
  into groups of 8, 4, 4, 4 and 12 digits joined by hyphens. The values that
  \<open>uuid.uuid4()\<close> and \<open>uuid.uuid1()\<close> return are inputs of the model.
\<close>

definition hexdigit :: "nat \<Rightarrow> char" where
  "hexdigit n = ''0123456789abcdef'' ! (n mod 16)"

definition hex32 :: "128 word \<Rightarrow> string" where
  "hex32 u = map (\<lambda>i. hexdigit (unat (drop_bit (4 * i) u AND 15))) (rev [0..<32])"

definition uuid_str :: "128 word \<Rightarrow> string" where
  "uuid_str u =
     (let hex = hex32 u
      in take 8 hex @ ''-'' @ take 4 (drop 8 hex) @ ''-'' @ take 4 (drop 12 hex) @ ''-''
         @ take 4 (drop 16 hex) @ ''-'' @ drop 20 hex)"

section \<open>The storage file and the process state\<close>

text \<open>
  The file at \<open>storage_file\<close>, by what \<open>os.path.exists\<close>, \<open>open\<close> and \<open>json.load\<close> do
  with it: it is absent; it exists but cannot be opened for reading; its bytes are not
  text in the default encoding; its text is not a JSON document; or it is the JSON
  document of a value.
\<close>

datatype storage =
    Absent
  | Unopenable
  | Undecodable
  | Malformed
  | Stored json

datatype disk_op = PathExists | OpenRead | OpenWrite

text \<open>How one \<open>open(..., 'w')\<close> followed by \<open>json.dump\<close> goes: it completes, \<open>open\<close>
  raises and the file is untouched, the write raises \<open>OSError\<close> after \<open>open\<close> has
  truncated the file, or \<open>json.dump\<close> itself raises there (\<open>RecursionError\<close> on nesting
  deeper than the encoder's recursion allows, \<open>ValueError\<close> on an integer beyond the
  digit limit). Both failures after \<open>open\<close> leave a proper prefix of the document.\<close>

datatype write_outcome = WriteOk | OpenFails | WriteFails | DumpFails exn

record world =
  disk_file :: storage
  data :: json
  disk_ops :: "disk_op list"

definition log_op :: "disk_op \<Rightarrow> world \<Rightarrow> world" where
  "log_op x w = w\<lparr>disk_ops := disk_ops w @ [x]\<rparr>"

text \<open>
  What the interpreter of the loading process allows the JSON parser: \<open>max_depth\<close> is
  the number of nested lists and dictionaries it parses before its recursion limit
  raises \<open>RecursionError\<close>; \<open>max_digits\<close> is \<open>sys.get_int_max_str_digits()\<close>, the longest
  integer literal it converts (\<open>0\<close> switches the limit off), beyond which \<open>int\<close> raises
  \<open>ValueError\<close>.
\<close>

record limits =
  max_depth :: nat
  max_digits :: nat

text \<open>The number of decimal digits of a natural number.\<close>

fun ndigits :: "nat \<Rightarrow> nat" where
  "ndigits n = (if n < 10 then 1 else Suc (ndigits (n div 10)))"

fun first_error :: "exn option list \<Rightarrow> exn option" where
  "first_error [] = None"
| "first_error (None # es) = first_error es"
| "first_error (Some e # es) = Some e"

text \<open>
  The parser reads the document from left to right, \<open>d\<close> containers deep, and stops at
  the first value it cannot take: a container at the depth limit or an integer
  literal that is too long.
\<close>

fun scan :: "limits \<Rightarrow> nat \<Rightarrow> json \<Rightarrow> exn option" where
  "scan lim d (JArr xs) =
     (if max_depth lim \<le> d then Some RecursionError
      else first_error (map (scan lim (Suc d)) xs))"
| "scan lim d (JObj kvs) =
     (if max_depth lim \<le> d then Some RecursionError
      else first_error (map (\<lambda>kv. scan lim (Suc d) (snd kv)) kvs))"
| "scan lim d (JInt n) =
     (if max_digits lim \<noteq> 0 \<and> max_digits lim < ndigits (nat \<bar>n\<bar>) then Some ValueError
      else None)"
| "scan lim d v = None"

text \<open>\<open>with open(self.storage_file, 'r') as f: return json.load(f)\<close>\<close>

fun json_load :: "limits \<Rightarrow> storage \<Rightarrow> exn + json" where
  "json_load lim Absent = Inl OSError"
| "json_load lim Unopenable = Inl OSError"
| "json_load lim Undecodable = Inl UnicodeDecodeError"
| "json_load lim Malformed = Inl JSONDecodeError"
| "json_load lim (Stored v) = (case scan lim 0 v of Some e \<Rightarrow> Inl e | None \<Rightarrow> Inr v)"

section \<open>NetworkClipboard\<close>

definition load_data :: "limits \<Rightarrow> world \<Rightarrow> (exn + json) \<times> world" where
  "load_data lim w =
     (let w1 = log_op PathExists w
      in if disk_file w1 = Absent then (Inr (JObj []), w1)
         else
           (let w2 = log_op OpenRead w1
            in case json_load lim (disk_file w2) of
                 Inr v \<Rightarrow> (Inr v, w2)
               | Inl e \<Rightarrow>
                   if e = JSONDecodeError \<or> e = OSError then (Inr (JObj []), w2)
                   else (Inl e, w2)))"


definition save_data :: "write_outcome \<Rightarrow> world \<Rightarrow> (exn + unit) \<times> world" where
  "save_data wo w =
     (let w1 = log_op OpenWrite w
      in case wo of
           OpenFails \<Rightarrow> (Inl OSError, w1)
         | WriteFails \<Rightarrow> (Inl OSError, w1\<lparr>disk_file := Malformed\<rparr>)
         | DumpFails e \<Rightarrow> (Inl e, w1\<lparr>disk_file := Malformed\<rparr>)
         | WriteOk \<Rightarrow> (Inr (), w1\<lparr>disk_file := Stored (data w1)\<rparr>))"

text \<open>
  \<open>create_entry\<close>: \<open>u4\<close> and \<open>u1\<close> are what \<open>uuid.uuid4()\<close> and \<open>uuid.uuid1()\<close> return in
  this call, \<open>wo\<close> is how the write of this call goes. The dictionary is updated before
  \<open>save_data\<close> runs, so the update stays when \<open>save_data\<close> raises.
\<close>

definition create_entry ::
  "json \<Rightarrow> 128 word \<Rightarrow> 128 word \<Rightarrow> write_outcome \<Rightarrow> world \<Rightarrow> (exn + string) \<times> world" where
  "create_entry content u4 u1 wo w =
     (let entry_id = take 8 (uuid_str u4)
      in case py_setitem (data w) entry_id
                (JObj [(''content'', content), (''timestamp'', JStr (uuid_str u1))]) of
           Inl e \<Rightarrow> (Inl e, w)
         | Inr d \<Rightarrow>
             (case save_data wo (w\<lparr>data := d\<rparr>) of
                (Inl e, w1) \<Rightarrow> (Inl e, w1)
              | (Inr _, w1) \<Rightarrow> (Inr entry_id, w1)))"

definition get_entry :: "string \<Rightarrow> world \<Rightarrow> (exn + json) \<times> world" where
  "get_entry entry_id w = (py_get (data w) entry_id, w)"

section \<open>The Flask routes\<close>

record response =
  status :: nat
  body :: json

text \<open>\<open>jsonify(x), c\<close>; \<open>jsonify(x)\<close> alone has status 200.\<close>

definition jsonify :: "json \<Rightarrow> nat \<Rightarrow> response" where
  "jsonify x c = \<lparr>status = c, body = x\<rparr>"

text \<open>
  \<open>create_clipboard_entry\<close>: \<open>rj\<close> is what evaluating \<open>request.json\<close> gives, a value
  (\<open>None\<close> is \<open>JNull\<close>) or the exception with which Flask aborts the request.
\<close>

definition create_clipboard_entry ::
  "exn + json \<Rightarrow> 128 word \<Rightarrow> 128 word \<Rightarrow> write_outcome \<Rightarrow> world
     \<Rightarrow> (exn + response) \<times> world" where
  "create_clipboard_entry rj u4 u1 wo w =
     (case rj of
        Inl e \<Rightarrow> (Inl e, w)
      | Inr d \<Rightarrow>
          if \<not> truthy d
          then (Inr (jsonify (JObj [(''error'', JStr ''Content is required'')]) 400), w)
          else
            (case py_contains ''content'' d of
               Inl e \<Rightarrow> (Inl e, w)
             | Inr False \<Rightarrow>
                 (Inr (jsonify (JObj [(''error'', JStr ''Content is required'')]) 400), w)
             | Inr True \<Rightarrow>
                 (case py_getitem d ''content'' of
                    Inl e \<Rightarrow> (Inl e, w)
                  | Inr c \<Rightarrow>
                      (case create_entry c u4 u1 wo w of
                         (Inl e, w1) \<Rightarrow> (Inl e, w1)
                       | (Inr entry_id, w1) \<Rightarrow>
                           (Inr (jsonify (JObj [(''id'', JStr entry_id)]) 200), w1)))))"

definition get_clipboard_entry :: "string \<Rightarrow> world \<Rightarrow> (exn + response) \<times> world" where
  "get_clipboard_entry entry_id w =
     (case get_entry entry_id w of
        (Inl e, w1) \<Rightarrow> (Inl e, w1)
      | (Inr entry, w1) \<Rightarrow>
          if truthy entry then (Inr (jsonify entry 200), w1)
          else (Inr (jsonify (JObj [(''error'', JStr ''Entry not found'')]) 404), w1))"

section \<open>Sequences of store operations\<close>

datatype op =
    Create json "128 word" "128 word" write_outcome
  | Get string

fun step :: "op \<Rightarrow> world \<Rightarrow> world" where
  "step (Create c u4 u1 wo) w = snd (create_entry c u4 u1 wo w)"
| "step (Get i) w = snd (get_entry i w)"

fun run :: "op list \<Rightarrow> world \<Rightarrow> world" where
  "run [] w = w"
| "run (x # xs) w = run xs (step x w)"

text \<open>The identifier a creation call generates, returned or not.\<close>

fun generated_id :: "op \<Rightarrow> string option" where
  "generated_id (Create c u4 u1 wo) = Some (take 8 (uuid_str u4))"
| "generated_id (Get i) = None"

text \<open>An entry as \<open>create_entry\<close> builds it.\<close>

definition mk_entry :: "json \<Rightarrow> 128 word \<Rightarrow> json" where
  "mk_entry content u1 = JObj [(''content'', content), (''timestamp'', JStr (uuid_str u1))]"

text \<open>A stored value that has a \<open>content\<close> field.\<close>

fun is_entry :: "json \<Rightarrow> bool" where
  "is_entry (JObj kvs) = (map_of kvs ''content'' \<noteq> None)"
| "is_entry _ = False"

fun is_dict :: "json \<Rightarrow> bool" where
  "is_dict (JObj kvs) = True"
| "is_dict _ = False"


section \<open>Basic facts\<close>

lemma length_hex32: "length (hex32 u) = 32"
  by (simp add: hex32_def)

lemma take8_uuid_str: "take 8 (uuid_str u) = take 8 (hex32 u)"
  by (simp add: uuid_str_def Let_def length_hex32)

lemma length_entry_id: "length (take 8 (uuid_str u)) = 8"
  by (simp add: take8_uuid_str length_hex32)

lemma hexdigit_in_alphabet: "hexdigit n \<in> set ''0123456789abcdef''"
proof -
  have "n mod 16 < length ''0123456789abcdef''" by simp
  then have "''0123456789abcdef'' ! (n mod 16) \<in> set ''0123456789abcdef''"
    by (rule nth_mem)
  then show ?thesis by (simp only: hexdigit_def)
qed

lemma set_hex32: "set (hex32 u) \<subseteq> set ''0123456789abcdef''"
  unfolding hex32_def using hexdigit_in_alphabet by auto

lemma set_entry_id: "set (take 8 (uuid_str u)) \<subseteq> set ''0123456789abcdef''"
  unfolding take8_uuid_str using set_hex32 [of u] set_take_subset [of 8 "hex32 u"] by blast

lemma uuid_str_ex_a:
  "uuid_str 0x3f2a9c1e5b7d4e8a9b0c1d2e3f4a5b6c = ''3f2a9c1e-5b7d-4e8a-9b0c-1d2e3f4a5b6c''"
  by code_simp

lemma uuid_str_ex_b:
  "uuid_str 0x3f2a9c1e00004000800000000000000a = ''3f2a9c1e-0000-4000-8000-00000000000a''"
  by code_simp

lemma uuid_str_ex_c:
  "uuid_str 0x7c0de5a1d2e34f56a7b8c9d0e1f2a3b4 = ''7c0de5a1-d2e3-4f56-a7b8-c9d0e1f2a3b4''"
  by code_simp

lemma uuid_str_ex_t2:
  "uuid_str 0xa1b2c3d5e5f611ee8c900242ac120002 = ''a1b2c3d5-e5f6-11ee-8c90-0242ac120002''"
  by code_simp

lemma uuid_str_ex_t:
  "uuid_str 0xa1b2c3d4e5f611ee8c900242ac120002 = ''a1b2c3d4-e5f6-11ee-8c90-0242ac120002''"
  by code_simp

lemma save_data_data: "data (snd (save_data wo w)) = data w"
  by (cases wo) (simp_all add: save_data_def log_op_def)

lemma create_entry_dict:
  assumes "data w = JObj kvs"
  shows "data (snd (create_entry c u4 u1 wo w))
           = JObj (AList.update (take 8 (uuid_str u4)) (mk_entry c u1) kvs)"
  using assms
  by (cases wo) (simp_all add: create_entry_def save_data_def log_op_def mk_entry_def Let_def)

lemma create_entry_not_dict:
  assumes "\<not> is_dict (data w)"
  shows "create_entry c u4 u1 wo w = (Inl TypeError, w)"
  using assms by (cases "data w") (simp_all add: create_entry_def Let_def)

lemma create_entry_returns:
  assumes "create_entry c u4 u1 wo w = (Inr i, w1)"
  shows "i = take 8 (uuid_str u4) \<and> wo = WriteOk \<and> (\<exists>kvs. data w = JObj kvs)"
  using assms
  by (cases "data w"; cases wo)
     (auto simp add: create_entry_def save_data_def log_op_def Let_def)

lemma create_entry_ok:
  assumes "is_dict (data w)"
  shows "fst (create_entry c u4 u1 WriteOk w) = Inr (take 8 (uuid_str u4))"
  using assms
  by (cases "data w") (simp_all add: create_entry_def save_data_def log_op_def Let_def)

lemma py_get_update_same: "py_get (JObj (AList.update k v kvs)) k = Inr v"
  by (simp add: update_conv')

lemma py_get_update_other:
  "k \<noteq> i \<Longrightarrow> py_get (JObj (AList.update k v kvs)) i = py_get (JObj kvs) i"
  by (simp add: update_conv')

lemma step_keeps_other:
  assumes "generated_id x \<noteq> Some i"
  shows "py_get (data (step x w)) i = py_get (data w) i"
proof (cases x)
  case (Create c u4 u1 wo)
  show ?thesis
  proof (cases "data w")
    case (JObj kvs)
    with Create assms show ?thesis
      by (simp add: create_entry_dict py_get_update_other del: py_get.simps)
  qed (simp_all add: Create create_entry_not_dict)
next
  case (Get j)
  then show ?thesis by (simp add: get_entry_def)
qed

lemma run_keeps_other:
  assumes "\<forall>x \<in> set xs. generated_id x \<noteq> Some i"
  shows "py_get (data (run xs w)) i = py_get (data w) i"
  using assms
proof (induction xs arbitrary: w)
  case Nil
  then show ?case by simp
next
  case (Cons x xs)
  then show ?case by (simp add: step_keeps_other)
qed

lemma create_then_get_aux:
  assumes "create_entry c u4 u1 wo w = (Inr i, w1)"
  shows "py_get (data w1) i = Inr (mk_entry c u1)"
proof -
  from assms obtain kvs where i: "i = take 8 (uuid_str u4)" and d: "data w = JObj kvs"
    using create_entry_returns by blast
  from assms have "w1 = snd (create_entry c u4 u1 wo w)" by simp
  with d i have "data w1 = JObj (AList.update i (mk_entry c u1) kvs)"
    by (simp add: create_entry_dict)
  then show ?thesis
    by (simp only: py_get_update_same)
qed

section \<open>Creation and lookup\<close>

text \<open>
  C1. For every content value \<open>c\<close> (a string in particular), when \<open>create_entry c\<close> returns
  an identifier, \<open>get_entry\<close> of that identifier in the resulting state yields the entry
  built by the call, and the \<open>content\<close> field of that entry is \<open>c\<close>.
\<close>

theorem create_then_get:
  assumes "create_entry c u4 u1 wo w = (Inr i, w1)"
  shows "fst (get_entry i w1) = Inr (mk_entry c u1)
         \<and> py_getitem (mk_entry c u1) ''content'' = Inr c"
proof -
  from assms have "py_get (data w1) i = Inr (mk_entry c u1)"
    by (rule create_then_get_aux)
  then show ?thesis by (simp add: get_entry_def mk_entry_def)
qed

theorem create_then_get_witness:
  "fst (create_entry (JStr ''hello'') 0x3f2a9c1e5b7d4e8a9b0c1d2e3f4a5b6c
          0xa1b2c3d4e5f611ee8c900242ac120002 WriteOk
          \<lparr>disk_file = Absent, data = JObj [], disk_ops = []\<rparr>) = Inr ''3f2a9c1e''
   \<and> fst (get_entry ''3f2a9c1e''
          (snd (create_entry (JStr ''hello'') 0x3f2a9c1e5b7d4e8a9b0c1d2e3f4a5b6c
                  0xa1b2c3d4e5f611ee8c900242ac120002 WriteOk
                  \<lparr>disk_file = Absent, data = JObj [], disk_ops = []\<rparr>)))
       = Inr (JObj [(''content'', JStr ''hello''),
                    (''timestamp'', JStr ''a1b2c3d4-e5f6-11ee-8c90-0242ac120002'')])"
proof -
  have h: "create_entry (JStr ''hello'') 0x3f2a9c1e5b7d4e8a9b0c1d2e3f4a5b6c
             0xa1b2c3d4e5f611ee8c900242ac120002 WriteOk
             \<lparr>disk_file = Absent, data = JObj [], disk_ops = []\<rparr>
           = (Inr ''3f2a9c1e'',
              snd (create_entry (JStr ''hello'') 0x3f2a9c1e5b7d4e8a9b0c1d2e3f4a5b6c
                     0xa1b2c3d4e5f611ee8c900242ac120002 WriteOk
                     \<lparr>disk_file = Absent, data = JObj [], disk_ops = []\<rparr>))"
    by (simp add: create_entry_def save_data_def log_op_def Let_def uuid_str_ex_a)
  from h have "fst (create_entry (JStr ''hello'') 0x3f2a9c1e5b7d4e8a9b0c1d2e3f4a5b6c
                 0xa1b2c3d4e5f611ee8c900242ac120002 WriteOk
                 \<lparr>disk_file = Absent, data = JObj [], disk_ops = []\<rparr>) = Inr ''3f2a9c1e''"
    by (rule arg_cong [where f = fst, THEN trans]) simp
  with create_then_get [OF h] show ?thesis
    by (simp add: mk_entry_def uuid_str_ex_t)
qed

text \<open>
  C4. The identifier that \<open>create_entry\<close> returns is the first 8 characters of the
  textual form of the 128-bit identifier \<open>uuid4()\<close> gave: it has length 8 and consists of
  lower-case hexadecimal digits.
\<close>

theorem entry_id_is_uuid_prefix:
  assumes "create_entry c u4 u1 wo w = (Inr i, w1)"
  shows "i = take 8 (uuid_str u4) \<and> length i = 8 \<and> set i \<subseteq> set ''0123456789abcdef''"
proof -
  from assms have "i = take 8 (uuid_str u4)"
    using create_entry_returns by blast
  then show ?thesis
    using length_entry_id [of u4] set_entry_id [of u4] by simp
qed

theorem entry_id_is_uuid_prefix_witness:
  "fst (create_entry JNull 0x7c0de5a1d2e34f56a7b8c9d0e1f2a3b4
          0xa1b2c3d4e5f611ee8c900242ac120002 WriteOk
          \<lparr>disk_file = Malformed, data = JObj [], disk_ops = []\<rparr>) = Inr ''7c0de5a1''
   \<and> ''7c0de5a1'' = take 8 (uuid_str 0x7c0de5a1d2e34f56a7b8c9d0e1f2a3b4)
   \<and> length ''7c0de5a1'' = 8"
proof -
  have h: "create_entry JNull 0x7c0de5a1d2e34f56a7b8c9d0e1f2a3b4
             0xa1b2c3d4e5f611ee8c900242ac120002 WriteOk
             \<lparr>disk_file = Malformed, data = JObj [], disk_ops = []\<rparr>
           = (Inr ''7c0de5a1'',
              snd (create_entry JNull 0x7c0de5a1d2e34f56a7b8c9d0e1f2a3b4
                     0xa1b2c3d4e5f611ee8c900242ac120002 WriteOk
                     \<lparr>disk_file = Malformed, data = JObj [], disk_ops = []\<rparr>))"
    by (simp add: create_entry_def save_data_def log_op_def Let_def uuid_str_ex_c)
  from h have "fst (create_entry JNull 0x7c0de5a1d2e34f56a7b8c9d0e1f2a3b4
                 0xa1b2c3d4e5f611ee8c900242ac120002 WriteOk
                 \<lparr>disk_file = Malformed, data = JObj [], disk_ops = []\<rparr>) = Inr ''7c0de5a1''"
    by (rule arg_cong [where f = fst, THEN trans]) simp
  with entry_id_is_uuid_prefix [OF h] show ?thesis
    by (simp add: uuid_str_ex_c)
qed

text \<open>
  C9. \<open>get_entry\<close> changes nothing: the state after the call is the state before it, so
  the in-memory mapping and the storage file are the same and no disk operation has been
  added to the log.
\<close>

theorem get_entry_no_effect:
  "snd (get_entry i w) = w \<and> disk_ops (snd (get_entry i w)) = disk_ops w"
  by (simp add: get_entry_def)

section \<open>Retention of entries\<close>

text \<open>
  No later call touches an entry unless it generates the same identifier: once
  \<open>create_entry\<close> has returned an identifier, it resolves to the entry created for it
  after every sequence of creation and lookup calls in which no creation call
  generates that identifier again.
\<close>

lemma entry_retained:
  assumes "create_entry c u4 u1 wo w = (Inr i, w1)"
    and "\<forall>x \<in> set ops. generated_id x \<noteq> Some i"
  shows "fst (get_entry i (run ops w1)) = Inr (mk_entry c u1)"
proof -
  from assms(2) have "py_get (data (run ops w1)) i = py_get (data w1) i"
    by (rule run_keeps_other)
  moreover from assms(1) have "py_get (data w1) i = Inr (mk_entry c u1)"
    using create_then_get_aux by blast
  ultimately show ?thesis by (simp add: get_entry_def)
qed

text \<open>
  C2. The identifier is only the first 8 hexadecimal digits of \<open>uuid4()\<close> and
  \<open>create_entry\<close> assigns \<open>self.data[entry_id]\<close> without looking whether the key is
  taken. So whenever a later creation call draws a UUID with the same first 8 digits,
  it returns the identifier a second time and that identifier then resolves to the
  later entry: the entry created first is replaced, for any contents and any store.
\<close>

theorem later_same_id_replaces:
  assumes "create_entry c u4 u1 wo w = (Inr i, w1)"
    and "take 8 (uuid_str u4') = i"
  shows "fst (create_entry c' u4' u1' WriteOk w1) = Inr i
         \<and> fst (get_entry i (snd (create_entry c' u4' u1' WriteOk w1))) = Inr (mk_entry c' u1')"
proof -
  from assms(1) obtain kvs where "data w = JObj kvs"
    using create_entry_returns by blast
  with assms(1) have d: "is_dict (data w1)"
    using create_entry_dict [of w kvs c u4 u1 wo] by simp
  with assms(2) have r: "fst (create_entry c' u4' u1' WriteOk w1) = Inr i"
    by (simp add: create_entry_ok)
  then have "create_entry c' u4' u1' WriteOk w1
               = (Inr i, snd (create_entry c' u4' u1' WriteOk w1))"
    by (metis prod.collapse)
  then have "py_get (data (snd (create_entry c' u4' u1' WriteOk w1))) i = Inr (mk_entry c' u1')"
    by (rule create_then_get_aux)
  with r show ?thesis by (simp add: get_entry_def)
qed

theorem later_same_id_replaces_witness:
  "fst (create_entry (JStr ''first'') 0x3f2a9c1e5b7d4e8a9b0c1d2e3f4a5b6c
          0xa1b2c3d4e5f611ee8c900242ac120002 WriteOk
          \<lparr>disk_file = Absent, data = JObj [], disk_ops = []\<rparr>) = Inr ''3f2a9c1e''
   \<and> fst (create_entry (JStr ''second'') 0x3f2a9c1e00004000800000000000000a
          0xa1b2c3d5e5f611ee8c900242ac120002 WriteOk
          (snd (create_entry (JStr ''first'') 0x3f2a9c1e5b7d4e8a9b0c1d2e3f4a5b6c
                  0xa1b2c3d4e5f611ee8c900242ac120002 WriteOk
                  \<lparr>disk_file = Absent, data = JObj [], disk_ops = []\<rparr>))) = Inr ''3f2a9c1e''
   \<and> fst (get_entry ''3f2a9c1e''
          (snd (create_entry (JStr ''second'') 0x3f2a9c1e00004000800000000000000a
                  0xa1b2c3d5e5f611ee8c900242ac120002 WriteOk
                  (snd (create_entry (JStr ''first'') 0x3f2a9c1e5b7d4e8a9b0c1d2e3f4a5b6c
                          0xa1b2c3d4e5f611ee8c900242ac120002 WriteOk
                          \<lparr>disk_file = Absent, data = JObj [], disk_ops = []\<rparr>)))))
       = Inr (JObj [(''content'', JStr ''second''),
                    (''timestamp'', JStr ''a1b2c3d5-e5f6-11ee-8c90-0242ac120002'')])"
proof -
  have f: "fst (create_entry (JStr ''first'') 0x3f2a9c1e5b7d4e8a9b0c1d2e3f4a5b6c
             0xa1b2c3d4e5f611ee8c900242ac120002 WriteOk
             \<lparr>disk_file = Absent, data = JObj [], disk_ops = []\<rparr>) = Inr ''3f2a9c1e''"
    by (simp add: create_entry_def save_data_def log_op_def Let_def uuid_str_ex_a)
  then have h: "create_entry (JStr ''first'') 0x3f2a9c1e5b7d4e8a9b0c1d2e3f4a5b6c
             0xa1b2c3d4e5f611ee8c900242ac120002 WriteOk
             \<lparr>disk_file = Absent, data = JObj [], disk_ops = []\<rparr>
           = (Inr ''3f2a9c1e'',
              snd (create_entry (JStr ''first'') 0x3f2a9c1e5b7d4e8a9b0c1d2e3f4a5b6c
                     0xa1b2c3d4e5f611ee8c900242ac120002 WriteOk
                     \<lparr>disk_file = Absent, data = JObj [], disk_ops = []\<rparr>))"
    by (metis prod.collapse)
  have g: "take 8 (uuid_str 0x3f2a9c1e00004000800000000000000a) = ''3f2a9c1e''"
    by (simp add: uuid_str_ex_b)
  from later_same_id_replaces [OF h g, of "JStr ''second''" "0xa1b2c3d5e5f611ee8c900242ac120002"] f
  show ?thesis
    by (simp only: mk_entry_def uuid_str_ex_t2 simp_thms)
qed

text \<open>
  C5, as stated, fails: \<open>create_entry\<close> puts the entry into the mapping before it
  persists, so a call whose write raises returns no identifier and still leaves its
  entry behind. Here the only creation call raises \<open>OSError\<close>, and the identifier it
  generated resolves to an entry.
\<close>

theorem unreturned_id_found_counterexample:
  "fst (create_entry (JStr ''lost'') 0x3f2a9c1e5b7d4e8a9b0c1d2e3f4a5b6c
          0xa1b2c3d4e5f611ee8c900242ac120002 OpenFails
          \<lparr>disk_file = Absent, data = JObj [], disk_ops = []\<rparr>) = Inl OSError
   \<and> fst (get_entry ''3f2a9c1e''
          (snd (create_entry (JStr ''lost'') 0x3f2a9c1e5b7d4e8a9b0c1d2e3f4a5b6c
                  0xa1b2c3d4e5f611ee8c900242ac120002 OpenFails
                  \<lparr>disk_file = Absent, data = JObj [], disk_ops = []\<rparr>)))
       = Inr (JObj [(''content'', JStr ''lost''),
                    (''timestamp'', JStr ''a1b2c3d4-e5f6-11ee-8c90-0242ac120002'')])"
  by (simp add: create_entry_def save_data_def log_op_def get_entry_def Let_def
        uuid_str_ex_a uuid_str_ex_t)

text \<open>
  C5, amended. An identifier that is not a key of the mapping the process started with
  and that no creation call has generated (whether that call returned it or raised)
  resolves to \<open>None\<close>, and \<open>None\<close> differs from the entry whose content is the empty
  string.
\<close>

theorem unknown_id_not_found:
  assumes "data w = JObj kvs"
    and "map_of kvs i = None"
    and "\<forall>x \<in> set ops. generated_id x \<noteq> Some i"
  shows "fst (get_entry i (run ops w)) = Inr JNull
         \<and> fst (get_entry i (run ops w)) \<noteq> Inr (mk_entry (JStr []) u1)"
proof -
  from assms(3) have "py_get (data (run ops w)) i = py_get (data w) i"
    by (rule run_keeps_other)
  with assms(1,2) have "fst (get_entry i (run ops w)) = Inr JNull"
    by (simp add: get_entry_def)
  then show ?thesis by (simp add: mk_entry_def)
qed

theorem unknown_id_not_found_witness:
  "fst (get_entry ''deadbeef''
          (run [Create (JStr []) 0x3f2a9c1e5b7d4e8a9b0c1d2e3f4a5b6c
                  0xa1b2c3d4e5f611ee8c900242ac120002 WriteOk,
                Create (JStr ''lost'') 0x7c0de5a1d2e34f56a7b8c9d0e1f2a3b4
                  0xa1b2c3d4e5f611ee8c900242ac120002 OpenFails]
             \<lparr>disk_file = Absent, data = JObj [], disk_ops = []\<rparr>)) = Inr JNull"
proof -
  have d: "data \<lparr>disk_file = Absent, data = JObj [], disk_ops = []\<rparr> = JObj []"
    by simp
  have k: "map_of ([] :: (string \<times> json) list) ''deadbeef'' = None"
    by simp
  have g: "\<forall>x \<in> set [Create (JStr []) 0x3f2a9c1e5b7d4e8a9b0c1d2e3f4a5b6c
                  0xa1b2c3d4e5f611ee8c900242ac120002 WriteOk,
                Create (JStr ''lost'') 0x7c0de5a1d2e34f56a7b8c9d0e1f2a3b4
                  0xa1b2c3d4e5f611ee8c900242ac120002 OpenFails].
             generated_id x \<noteq> Some ''deadbeef''"
    by (simp add: uuid_str_ex_a uuid_str_ex_c)
  from unknown_id_not_found [OF d k g] show ?thesis
    by (rule conjunct1)
qed

section \<open>Loading and persisting\<close>

lemma load_data_stored:
  "disk_file w = Stored v \<Longrightarrow> scan lim 0 v = None \<Longrightarrow> fst (load_data lim w) = Inr v"
  by (simp add: load_data_def log_op_def Let_def)

lemma load_data_unparsed:
  "disk_file w = Stored v \<Longrightarrow> scan lim 0 v = Some e \<Longrightarrow> e = RecursionError \<or> e = ValueError
     \<Longrightarrow> fst (load_data lim w) = Inl e"
  by (auto simp add: load_data_def log_op_def Let_def)

lemma load_data_empty:
  "disk_file w = Absent \<or> disk_file w = Unopenable \<or> disk_file w = Malformed
     \<Longrightarrow> fst (load_data lim w) = Inr (JObj [])"
  by (auto simp add: load_data_def log_op_def Let_def)

lemma load_data_keeps_memory: "data (snd (load_data lim w)) = data w"
  by (cases "disk_file w")
     (simp_all add: load_data_def log_op_def Let_def split: sum.splits)

text \<open>
  C3. \<open>load_data\<close> catches \<open>JSONDecodeError\<close> and \<open>IOError\<close> only. When the bytes of
  the storage file are not text in the default encoding, reading it raises
  \<open>UnicodeDecodeError\<close>, which passes the \<open>except\<close> clause and reaches the caller.
\<close>

theorem load_data_undecodable:
  "fst (load_data lim (w\<lparr>disk_file := Undecodable\<rparr>)) = Inl UnicodeDecodeError"
  by (simp add: load_data_def log_op_def Let_def)

lemma first_error_None: "first_error es = None \<longleftrightarrow> (\<forall>e \<in> set es. e = None)"
  by (induction es rule: first_error.induct) auto





section \<open>The routes\<close>

text \<open>
  C6. A request body that is valid JSON, is not an object and has no \<open>content\<close> field is
  not answered with status 400: for the body \<open>5\<close> the test \<open>'content' not in data\<close>
  raises \<open>TypeError\<close>, which leaves the handler.
\<close>

theorem create_number_body_raises:
  "create_clipboard_entry (Inr (JInt 5)) u4 u1 wo w = (Inl TypeError, w)"
  by (simp add: create_clipboard_entry_def)

lemma create_route_with_content:
  assumes "map_of kvs ''content'' = Some v"
  shows "create_clipboard_entry (Inr (JObj kvs)) u4 u1 wo w =
           (case create_entry v u4 u1 wo w of
              (Inl e, w1) \<Rightarrow> (Inl e, w1)
            | (Inr entry_id, w1) \<Rightarrow>
                (Inr (jsonify (JObj [(''id'', JStr entry_id)]) 200), w1))"
proof -
  from assms have "kvs \<noteq> []" by auto
  with assms show ?thesis by (simp add: create_clipboard_entry_def)
qed

text \<open>
  C7. With a dictionary as the store: an identifier whose stored value is an entry (an
  object with a \<open>content\<close> field) is answered with status 200 and the whole stored
  entry as payload; an identifier that is not a key is answered with status 404 and
  \<open>{"error": "Entry not found"}\<close>. Neither changes the state.
\<close>

theorem get_route_responses:
  assumes "data w = JObj kvs"
  shows "(\<forall>e. map_of kvs i = Some e \<and> is_entry e \<longrightarrow>
            get_clipboard_entry i w = (Inr (jsonify e 200), w))
         \<and> (map_of kvs i = None \<longrightarrow>
            get_clipboard_entry i w
              = (Inr (jsonify (JObj [(''error'', JStr ''Entry not found'')]) 404), w))"
proof -
  have "truthy e" if "is_entry e" for e
    using that by (cases e) auto
  with assms show ?thesis
    by (simp add: get_clipboard_entry_def get_entry_def)
qed

theorem get_route_responses_witness:
  "get_clipboard_entry ''3f2a9c1e''
      \<lparr>disk_file = Absent,
       data = JObj [(''3f2a9c1e'', JObj [(''content'', JStr ''hello''),
                                         (''timestamp'', JStr ''t'')])],
       disk_ops = []\<rparr>
     = (Inr \<lparr>status = 200, body = JObj [(''content'', JStr ''hello''),
                                          (''timestamp'', JStr ''t'')]\<rparr>,
        \<lparr>disk_file = Absent,
         data = JObj [(''3f2a9c1e'', JObj [(''content'', JStr ''hello''),
                                           (''timestamp'', JStr ''t'')])],
         disk_ops = []\<rparr>)
   \<and> get_clipboard_entry ''doesnotexist''
      \<lparr>disk_file = Absent,
       data = JObj [(''3f2a9c1e'', JObj [(''content'', JStr ''hello''),
                                         (''timestamp'', JStr ''t'')])],
       disk_ops = []\<rparr>
     = (Inr \<lparr>status = 404, body = JObj [(''error'', JStr ''Entry not found'')]\<rparr>,
        \<lparr>disk_file = Absent,
         data = JObj [(''3f2a9c1e'', JObj [(''content'', JStr ''hello''),
                                           (''timestamp'', JStr ''t'')])],
         disk_ops = []\<rparr>)"
proof -
  have d: "data \<lparr>disk_file = Absent,
       data = JObj [(''3f2a9c1e'', JObj [(''content'', JStr ''hello''),
                                         (''timestamp'', JStr ''t'')])],
       disk_ops = []\<rparr>
     = JObj [(''3f2a9c1e'', JObj [(''content'', JStr ''hello''),
                                  (''timestamp'', JStr ''t'')])]"
    by simp
  from get_route_responses [OF d, of "''3f2a9c1e''"]
       get_route_responses [OF d, of "''doesnotexist''"]
  show ?thesis by (simp add: jsonify_def)
qed

text \<open>
  C10. A request body that is an object with a \<open>content\<close> key is never answered with
  status 400, whatever the type of the value: every response the handler returns for
  it has status 200. When the store is a dictionary and the write completes, the
  response is \<open>{"id": <identifier>}\<close> with status 200 and the identifier resolves to an
  entry whose content is the value as it was sent.
\<close>

theorem create_accepts_any_content:
  assumes "map_of kvs ''content'' = Some v"
  shows "(\<forall>r. fst (create_clipboard_entry (Inr (JObj kvs)) u4 u1 wo w) = Inr r
              \<longrightarrow> status r = 200)
         \<and> (is_dict (data w) \<and> wo = WriteOk \<longrightarrow>
              fst (create_clipboard_entry (Inr (JObj kvs)) u4 u1 wo w)
                = Inr (jsonify (JObj [(''id'', JStr (take 8 (uuid_str u4)))]) 200)
              \<and> fst (get_entry (take 8 (uuid_str u4))
                       (snd (create_clipboard_entry (Inr (JObj kvs)) u4 u1 wo w)))
                = Inr (mk_entry v u1))"
proof (intro conjI allI impI)
  fix r
  assume "fst (create_clipboard_entry (Inr (JObj kvs)) u4 u1 wo w) = Inr r"
  with assms show "status r = 200"
    by (auto simp add: create_route_with_content jsonify_def split: prod.splits sum.splits)
next
  assume a: "is_dict (data w) \<and> wo = WriteOk"
  obtain r w1 where c: "create_entry v u4 u1 wo w = (r, w1)"
    by (cases "create_entry v u4 u1 wo w")
  from a have "fst (create_entry v u4 u1 wo w) = Inr (take 8 (uuid_str u4))"
    by (simp add: create_entry_ok)
  with c have r: "r = Inr (take 8 (uuid_str u4))" by simp
  with c assms
  show "fst (create_clipboard_entry (Inr (JObj kvs)) u4 u1 wo w)
          = Inr (jsonify (JObj [(''id'', JStr (take 8 (uuid_str u4)))]) 200)"
    by (simp add: create_route_with_content)
  from c r have "py_get (data w1) (take 8 (uuid_str u4)) = Inr (mk_entry v u1)"
    using create_then_get_aux by blast
  with c r assms
  show "fst (get_entry (take 8 (uuid_str u4))
               (snd (create_clipboard_entry (Inr (JObj kvs)) u4 u1 wo w)))
          = Inr (mk_entry v u1)"
    by (simp add: create_route_with_content get_entry_def)
qed

theorem create_accepts_any_content_witness:
  "create_clipboard_entry (Inr (JObj [(''content'', JNull)]))
      0x3f2a9c1e5b7d4e8a9b0c1d2e3f4a5b6c 0xa1b2c3d4e5f611ee8c900242ac120002 WriteOk
      \<lparr>disk_file = Absent, data = JObj [], disk_ops = []\<rparr>
     = (Inr \<lparr>status = 200, body = JObj [(''id'', JStr ''3f2a9c1e'')]\<rparr>,
        \<lparr>disk_file = Stored (JObj [(''3f2a9c1e'', JObj [(''content'', JNull),
             (''timestamp'', JStr ''a1b2c3d4-e5f6-11ee-8c90-0242ac120002'')])]),
         data = JObj [(''3f2a9c1e'', JObj [(''content'', JNull),
             (''timestamp'', JStr ''a1b2c3d4-e5f6-11ee-8c90-0242ac120002'')])],
         disk_ops = [OpenWrite]\<rparr>)"
proof -
  have k: "map_of [(''content'', JNull)] ''content'' = Some JNull"
    by simp
  have d: "is_dict (data \<lparr>disk_file = Absent, data = JObj [], disk_ops = []\<rparr>)
           \<and> WriteOk = WriteOk"
    by simp
  have s: "snd (create_clipboard_entry (Inr (JObj [(''content'', JNull)]))
      0x3f2a9c1e5b7d4e8a9b0c1d2e3f4a5b6c 0xa1b2c3d4e5f611ee8c900242ac120002 WriteOk
      \<lparr>disk_file = Absent, data = JObj [], disk_ops = []\<rparr>)
     = \<lparr>disk_file = Stored (JObj [(''3f2a9c1e'', JObj [(''content'', JNull),
             (''timestamp'', JStr ''a1b2c3d4-e5f6-11ee-8c90-0242ac120002'')])]),
         data = JObj [(''3f2a9c1e'', JObj [(''content'', JNull),
             (''timestamp'', JStr ''a1b2c3d4-e5f6-11ee-8c90-0242ac120002'')])],
         disk_ops = [OpenWrite]\<rparr>"
    by (simp add: create_clipboard_entry_def create_entry_def save_data_def log_op_def
          Let_def uuid_str_ex_a uuid_str_ex_t)
  from create_accepts_any_content [OF k, THEN conjunct2, rule_format, OF d, THEN conjunct1]
  have "fst (create_clipboard_entry (Inr (JObj [(''content'', JNull)]))
      0x3f2a9c1e5b7d4e8a9b0c1d2e3f4a5b6c 0xa1b2c3d4e5f611ee8c900242ac120002 WriteOk
      \<lparr>disk_file = Absent, data = JObj [], disk_ops = []\<rparr>)
     = Inr \<lparr>status = 200, body = JObj [(''id'', JStr ''3f2a9c1e'')]\<rparr>"
    by (simp add: jsonify_def uuid_str_ex_a)
  with s show ?thesis
    by (simp add: prod_eq_iff)
qed

end
